theory Spec2Isabelle
  imports Main "HOL-Library.Word"
begin

section \<open>The GELF stream core factory (stream\_gelf.go)\<close>

text \<open>
  The file under verification holds one factory, \<open>GelfStreamZapFactory\<close>, whose method
  \<open>New\<close> reads a handful of keys from a viper configuration, fills in a \<open>zap.Config\<close>
  and asks zap to build a logger; and the level encoder \<open>gelfLvlEncoder\<close> with its
  table \<open>lvlRelations\<close>. Everything \<open>New\<close> calls outside the file belongs to the
  imported packages viper, zap, zapcore and pkg/errors. The data types of those packages
  are written out below as far as the file touches them; their operations are taken as
  parameters of \<open>New\<close>, so that every theorem about \<open>New\<close> holds for whatever the
  packages compute.
\<close>

subsection \<open>zapcore: levels and the primitive array encoder\<close>

text \<open>\<open>type Level int8\<close>, with \<open>DebugLevel = -1\<close> up to \<open>FatalLevel = 5\<close>.\<close>

type_synonym Level = "8 word"

definition DebugLevel :: Level where "DebugLevel = - 1"
definition InfoLevel :: Level where "InfoLevel = 0"
definition WarnLevel :: Level where "WarnLevel = 1"
definition ErrorLevel :: Level where "ErrorLevel = 2"
definition DPanicLevel :: Level where "DPanicLevel = 3"
definition PanicLevel :: Level where "PanicLevel = 4"
definition FatalLevel :: Level where "FatalLevel = 5"

text \<open>
  A \<open>PrimitiveArrayEncoder\<close> receives primitive values one after the other. It is
  modelled by the list of the values appended so far; each value keeps the type it
  was appended with.
\<close>

datatype primitive = BoolPrim bool | IntPrim int | StringPrim string

type_synonym PrimitiveArrayEncoder = "primitive list"

definition AppendInt :: "int \<Rightarrow> PrimitiveArrayEncoder \<Rightarrow> PrimitiveArrayEncoder" where
  "AppendInt v encoder = encoder @ [IntPrim v]"

definition AppendString :: "string \<Rightarrow> PrimitiveArrayEncoder \<Rightarrow> PrimitiveArrayEncoder" where
  "AppendString v encoder = encoder @ [StringPrim v]"

subsection \<open>The GELF levels and the level encoder (lines 122 to 146)\<close>

text \<open>\<open>type gelfLevel int\<close>; the constants are numbered by \<open>iota\<close> from 0.\<close>

type_synonym gelfLevel = int

definition EmergencyGelfLvl :: gelfLevel where "EmergencyGelfLvl = 0"
definition AlertGelfLvl :: gelfLevel where "AlertGelfLvl = 1"
definition CriticalGelfLvl :: gelfLevel where "CriticalGelfLvl = 2"
definition ErrorGelfLvl :: gelfLevel where "ErrorGelfLvl = 3"
definition WarningGelfLvl :: gelfLevel where "WarningGelfLvl = 4"
definition NoticeGelfLvl :: gelfLevel where "NoticeGelfLvl = 5"
definition InformationalGelfLvl :: gelfLevel where "InformationalGelfLvl = 6"
definition DebugGelfLvl :: gelfLevel where "DebugGelfLvl = 7"

text \<open>The map literal \<open>lvlRelations\<close>, entry by entry.\<close>

definition lvlRelations :: "Level \<rightharpoonup> gelfLevel" where
  "lvlRelations = map_of
     [(DebugLevel, DebugGelfLvl),
      (InfoLevel, InformationalGelfLvl),
      (WarnLevel, WarningGelfLvl),
      (ErrorLevel, ErrorGelfLvl),
      (DPanicLevel, EmergencyGelfLvl),
      (PanicLevel, EmergencyGelfLvl),
      (FatalLevel, EmergencyGelfLvl)]"

text \<open>
  Reading a Go map at a key it does not hold gives the zero value of the value type,
  here \<open>gelfLevel(0)\<close>.
\<close>

definition lvlRelations_index :: "Level \<Rightarrow> gelfLevel" where
  "lvlRelations_index level = (case lvlRelations level of None \<Rightarrow> 0 | Some g \<Rightarrow> g)"

definition gelfLvlEncoder :: "Level \<Rightarrow> PrimitiveArrayEncoder \<Rightarrow> PrimitiveArrayEncoder" where
  "gelfLvlEncoder level encoder = AppendInt (lvlRelations_index level) encoder"

subsection \<open>zapcore.EncoderConfig and zap.Config\<close>

text \<open>
  The encoder fields of an \<open>EncoderConfig\<close> hold functions. The encoders of zapcore are
  named, not interpreted: nothing in the file calls them. A function written in the
  file itself is carried as it is.
\<close>

datatype LevelEncoder =
    LowercaseLevelEncoder
  | CapitalLevelEncoder
  | LevelEncoderFunc "Level \<Rightarrow> PrimitiveArrayEncoder \<Rightarrow> PrimitiveArrayEncoder"

datatype TimeEncoder =
    EpochTimeEncoder
  | EpochMillisTimeEncoder
  | EpochNanosTimeEncoder
  | ISO8601TimeEncoder
  | RFC3339TimeEncoder

datatype DurationEncoder =
    SecondsDurationEncoder
  | NanosDurationEncoder
  | MillisDurationEncoder
  | StringDurationEncoder

datatype CallerEncoder = ShortCallerEncoder | FullCallerEncoder

definition OmitKey :: string where "OmitKey = ''''"

definition DefaultLineEnding :: string where "DefaultLineEnding = [CHR 0x0A]"

text \<open>
  The fields of \<open>zapcore.EncoderConfig\<close> that the file's composite literal names. The
  fields it leaves out keep Go's zero value and are never read or written by the file.
\<close>

record EncoderConfig =
  MessageKey :: string
  LevelKey :: string
  TimeKey :: string
  NameKey :: string
  CallerKey :: string
  FunctionKey :: string
  StacktraceKey :: string
  LineEnding :: string
  EncodeLevel :: LevelEncoder
  EncodeTime :: TimeEncoder
  EncodeDuration :: DurationEncoder
  EncodeCaller :: CallerEncoder

text \<open>
  An \<open>AtomicLevel\<close> is a handle on a level that can be changed after construction; the
  model keeps the level it was created at.
\<close>

datatype AtomicLevel = NewAtomicLevelAt Level

datatype any = AnyString string | AnyBool bool | AnyInt int

record SamplingConfig =
  Initial :: int
  Thereafter :: int

text \<open>
  \<open>zap.Config\<close>. \<open>Sampling\<close> is a pointer (\<open>None\<close> is nil). \<open>InitialFields\<close> is a
  \<open>map[string]interface{}\<close>: \<open>None\<close> is the nil map, which can be read but not
  written; \<open>Some m\<close> is an allocated map.
\<close>

record Config =
  Level :: AtomicLevel
  Development :: bool
  DisableCaller :: bool
  DisableStacktrace :: bool
  Sampling :: "SamplingConfig option"
  Encoding :: string
  EncoderConfig :: EncoderConfig
  OutputPaths :: "string list"
  ErrorOutputPaths :: "string list"
  InitialFields :: "(string \<rightharpoonup> any) option"

subsection \<open>Errors (pkg/errors)\<close>

text \<open>
  An error is a message, or an error wrapped with a message by \<open>errors.Wrap\<close>. The
  stack trace that \<open>Wrap\<close> records as well is left out.
\<close>

datatype error = errorString string | withMessage error string

definition Wrap :: "error \<Rightarrow> string \<Rightarrow> error" where
  "Wrap err message = withMessage err message"



subsection \<open>The packages as parameters\<close>

text \<open>
  The three methods of \<open>*viper.Viper\<close> that \<open>New\<close> calls. All three only read,
  so a configuration is the three functions they compute. The pointer \<open>conf\<close> is
  taken to be non-nil.
\<close>

record Viper =
  IsSet :: "string \<Rightarrow> bool"
  GetBool :: "string \<Rightarrow> bool"
  GetString :: "string \<Rightarrow> string"

text \<open>
  What \<open>New\<close> uses of zap: the two default configurations, the level parser, and
  \<open>Config.Build\<close> followed by \<open>Logger.Core\<close>. \<open>Build\<close> opens the sinks, so it is no
  function of the file; it returns a logger or an error.
\<close>

record ('logger, 'core) Zap =
  NewDevelopmentConfig :: Config
  NewProductionConfig :: Config
  ParseAtomicLevel :: "string \<Rightarrow> error + AtomicLevel"
  Build :: "Config \<Rightarrow> error + 'logger"
  Core :: "'logger \<Rightarrow> 'core"

subsection \<open>getGelfEncoderConfig (lines 105 to 120)\<close>

definition getGelfEncoderConfig :: EncoderConfig where
  "getGelfEncoderConfig =
     \<lparr> MessageKey = ''short_message'',
       LevelKey = ''level'',
       TimeKey = ''timestamp'',
       NameKey = ''_logger'',
       CallerKey = ''_caller'',
       FunctionKey = OmitKey,
       StacktraceKey = ''full_message'',
       LineEnding = DefaultLineEnding,
       EncodeLevel = LowercaseLevelEncoder,
       EncodeTime = EpochTimeEncoder,
       EncodeDuration = SecondsDurationEncoder,
       EncodeCaller = ShortCallerEncoder \<rparr>"

subsection \<open>GelfStreamZapFactory (lines 31 to 103)\<close>

definition Name :: string where
  "Name = ''gelf_stream''"

text \<open>
  \<open>strings.Split(s, sep)\<close> for a separator of one character: the pieces of \<open>s\<close>
  between the separators, one more than there are separators.
\<close>

fun Split :: "string \<Rightarrow> char \<Rightarrow> string list" where
  "Split [] sep = [[]]"
| "Split (c # cs) sep =
     (if c = sep then [] # Split cs sep
      else (case Split cs sep of
              [] \<Rightarrow> [[c]]
            | piece # pieces \<Rightarrow> (c # piece) # pieces))"

text \<open>
  A run of Go code ends by returning or by a run-time panic. The two panics that the
  statements of \<open>New\<close> could raise are an index out of range (line 43) and an
  assignment to an entry of a nil map (line 88).
\<close>

datatype panic = IndexOutOfRange | NilMapAssignment

datatype 'a outcome = Panic panic | Return 'a

text \<open>
  The first block of \<open>New\<close> (lines 43 to 90) assembles \<open>loggerConf\<close>. It ends in one
  of three ways: a panic, the early \<open>return nil, err\<close> of line 81, or the assembled
  configuration with which the second block goes on.
\<close>

datatype assembled = Panicked panic | Failed error | Assembled Config

text \<open>Lines 86 to 89: the version field.\<close>

definition New_version :: "Viper \<Rightarrow> Config \<Rightarrow> assembled" where
  "New_version conf loggerConf =
     (if IsSet conf ''app.version'' then
        (case InitialFields loggerConf of
           None \<Rightarrow> Panicked NilMapAssignment
         | Some m \<Rightarrow>
             Assembled (loggerConf\<lparr>InitialFields :=
               Some (m(''version'' \<mapsto> AnyString (GetString conf ''app.version'')))\<rparr>))
      else Assembled loggerConf)"

text \<open>Lines 77 to 84, followed by the version field.\<close>

definition New_level :: "('logger, 'core) Zap \<Rightarrow> Viper \<Rightarrow> string \<Rightarrow> Config \<Rightarrow> assembled" where
  "New_level zap conf path loggerConf =
     (let key = path @ ''.level'' in
      if IsSet conf key then
        (case ParseAtomicLevel zap (GetString conf key) of
           Inl err \<Rightarrow> Failed (Wrap err (''cannot parse log level '' @ GetString conf key))
         | Inr lvl \<Rightarrow> New_version conf (loggerConf\<lparr>Level := lvl\<rparr>))
      else New_version conf loggerConf)"

text \<open>Lines 43 to 90.\<close>

definition New_loggerConf :: "('logger, 'core) Zap \<Rightarrow> Viper \<Rightarrow> string \<Rightarrow> assembled" where
  "New_loggerConf zap conf path =
     (case Split path (CHR ''.'') of
        [] \<Rightarrow> Panicked IndexOutOfRange
      | rootPath # _ \<Rightarrow>
         (let key = rootPath @ ''.development'';
              loggerConf = (if IsSet conf key \<and> GetBool conf key
                            then NewDevelopmentConfig zap
                            else NewProductionConfig zap);
              loggerConf = loggerConf\<lparr>Encoding := ''json''\<rparr>;
              loggerConf = loggerConf\<lparr>EncoderConfig := getGelfEncoderConfig\<rparr>;
              key = path @ ''.encoding'';
              loggerConf = (if IsSet conf key
                            then loggerConf\<lparr>Encoding := GetString conf key\<rparr>
                            else loggerConf);
              loggerConf = loggerConf\<lparr>EncoderConfig :=
                (EncoderConfig loggerConf)\<lparr>EncodeLevel := LevelEncoderFunc gelfLvlEncoder\<rparr>\<rparr>;
              key = rootPath @ ''.stacktrace'';
              loggerConf = (if IsSet conf key
                            then loggerConf\<lparr>DisableStacktrace := (GetString conf key = ''false'')\<rparr>
                            else loggerConf);
              key = rootPath @ ''.caller'';
              loggerConf = (if IsSet conf key
                            then loggerConf\<lparr>DisableCaller := (\<not> GetBool conf key)\<rparr>
                            else loggerConf)
          in New_level zap conf path loggerConf))"

text \<open>
  \<open>New\<close> returns the pair \<open>(zapcore.Core, error)\<close>; \<open>None\<close> is nil on either side.
  The second block (lines 92 to 100) builds the logger and takes its core.
\<close>

definition New ::
  "('logger, 'core) Zap \<Rightarrow> Viper \<Rightarrow> string \<Rightarrow> ('core option \<times> error option) outcome" where
  "New zap conf path =
     (case New_loggerConf zap conf path of
        Panicked p \<Rightarrow> Panic p
      | Failed err \<Rightarrow> Return (None, Some err)
      | Assembled loggerConf \<Rightarrow>
          (case Build zap loggerConf of
             Inl err \<Rightarrow> Return (None, Some (Wrap err ''failed to build logger''))
           | Inr logger \<Rightarrow> Return (Some (Core zap logger), None)))"

subsection \<open>Names for two expressions of \<open>New\<close>\<close>

text \<open>
  \<open>rootPath\<close> is the variable of line 43, the first piece of the path; the selected
  profile is the value \<open>loggerConf\<close> holds after lines 48 to 53.
\<close>

definition rootPath :: "string \<Rightarrow> string" where
  "rootPath path = hd (Split path (CHR ''.''))"

definition selected_profile :: "('logger, 'core) Zap \<Rightarrow> Viper \<Rightarrow> string \<Rightarrow> Config" where
  "selected_profile zap conf path =
     (if IsSet conf (rootPath path @ ''.development'') \<and>
         GetBool conf (rootPath path @ ''.development'')
      then NewDevelopmentConfig zap
      else NewProductionConfig zap)"

subsection \<open>The imported packages at concrete values\<close>

text \<open>
  The theorems about \<open>New\<close> hold for every value of the package parameters. To run
  \<open>New\<close> on a concrete input the parameters need values. The two default
  configurations are those of go.uber.org/zap (config.go): neither constructor sets
  \<open>DisableCaller\<close>, \<open>DisableStacktrace\<close> or \<open>InitialFields\<close>, so the first two are
  false and the map is nil.
\<close>

definition zap_NewProductionEncoderConfig :: EncoderConfig where
  "zap_NewProductionEncoderConfig =
     \<lparr> MessageKey = ''msg'',
       LevelKey = ''level'',
       TimeKey = ''ts'',
       NameKey = ''logger'',
       CallerKey = ''caller'',
       FunctionKey = OmitKey,
       StacktraceKey = ''stacktrace'',
       LineEnding = DefaultLineEnding,
       EncodeLevel = LowercaseLevelEncoder,
       EncodeTime = EpochTimeEncoder,
       EncodeDuration = SecondsDurationEncoder,
       EncodeCaller = ShortCallerEncoder \<rparr>"

definition zap_NewDevelopmentEncoderConfig :: EncoderConfig where
  "zap_NewDevelopmentEncoderConfig =
     \<lparr> MessageKey = ''M'',
       LevelKey = ''L'',
       TimeKey = ''T'',
       NameKey = ''N'',
       CallerKey = ''C'',
       FunctionKey = OmitKey,
       StacktraceKey = ''S'',
       LineEnding = DefaultLineEnding,
       EncodeLevel = CapitalLevelEncoder,
       EncodeTime = ISO8601TimeEncoder,
       EncodeDuration = StringDurationEncoder,
       EncodeCaller = ShortCallerEncoder \<rparr>"

definition zap_NewProductionConfig :: Config where
  "zap_NewProductionConfig =
     \<lparr> Level = NewAtomicLevelAt InfoLevel,
       Development = False,
       DisableCaller = False,
       DisableStacktrace = False,
       Sampling = Some \<lparr> Initial = 100, Thereafter = 100 \<rparr>,
       Encoding = ''json'',
       EncoderConfig = zap_NewProductionEncoderConfig,
       OutputPaths = [''stderr''],
       ErrorOutputPaths = [''stderr''],
       InitialFields = None \<rparr>"

definition zap_NewDevelopmentConfig :: Config where
  "zap_NewDevelopmentConfig =
     \<lparr> Level = NewAtomicLevelAt DebugLevel,
       Development = True,
       DisableCaller = False,
       DisableStacktrace = False,
       Sampling = None,
       Encoding = ''console'',
       EncoderConfig = zap_NewDevelopmentEncoderConfig,
       OutputPaths = [''stderr''],
       ErrorOutputPaths = [''stderr''],
       InitialFields = None \<rparr>"

text \<open>
  The level parser and the builder are stand-ins, used only to run \<open>New\<close> on the
  concrete inputs below. The parser knows the seven level names in lower case and
  rejects every other text with zap's message. The builder accepts the two encodings
  that zap registers itself and rejects any other name with zap's message; the logger
  it returns is the configuration it was built from, and so is the logger's core.
\<close>

definition quoted :: "string \<Rightarrow> string" where
  "quoted s = [CHR 0x22] @ s @ [CHR 0x22]"

definition standin_ParseAtomicLevel :: "string \<Rightarrow> error + AtomicLevel" where
  "standin_ParseAtomicLevel text =
     (case map_of
        [(''debug'', DebugLevel), (''info'', InfoLevel), (''warn'', WarnLevel),
         (''error'', ErrorLevel), (''dpanic'', DPanicLevel), (''panic'', PanicLevel),
         (''fatal'', FatalLevel)] text of
        Some l \<Rightarrow> Inr (NewAtomicLevelAt l)
      | None \<Rightarrow> Inl (errorString (''unrecognized level: '' @ quoted text)))"

datatype Logger = Logger Config

fun Logger_Core :: "Logger \<Rightarrow> Config" where
  "Logger_Core (Logger c) = c"

definition standin_Build :: "Config \<Rightarrow> error + Logger" where
  "standin_Build c =
     (if Encoding c = ''json'' \<or> Encoding c = ''console'' then Inr (Logger c)
      else Inl (errorString (''no encoder registered for name '' @ quoted (Encoding c))))"

definition go_zap :: "(Logger, Config) Zap" where
  "go_zap =
     \<lparr> NewDevelopmentConfig = zap_NewDevelopmentConfig,
       NewProductionConfig = zap_NewProductionConfig,
       ParseAtomicLevel = standin_ParseAtomicLevel,
       Build = standin_Build,
       Core = Logger_Core \<rparr>"

text \<open>
  A configuration holding the listed settings, as viper holds them after reading a
  file whose keys are in lower case: an unset key reads as false and as the empty
  string; a boolean reads as the string \<open>true\<close> or \<open>false\<close>; a string reads as a
  boolean the way \<open>strconv.ParseBool\<close> reads it, and as false when that fails.
\<close>

datatype setting = BoolSetting bool | StringSetting string

definition ParseBool :: "string \<Rightarrow> bool option" where
  "ParseBool str =
     (if str \<in> set [''1'', ''t'', ''T'', ''TRUE'', ''true'', ''True''] then Some True
      else if str \<in> set [''0'', ''f'', ''F'', ''FALSE'', ''false'', ''False''] then Some False
      else None)"

definition viperOf :: "(string \<times> setting) list \<Rightarrow> Viper" where
  "viperOf settings =
     \<lparr> IsSet = (\<lambda>key. map_of settings key \<noteq> None),
       GetBool = (\<lambda>key. case map_of settings key of
                    None \<Rightarrow> False
                  | Some (BoolSetting b) \<Rightarrow> b
                  | Some (StringSetting s) \<Rightarrow> (case ParseBool s of None \<Rightarrow> False | Some b \<Rightarrow> b)),
       GetString = (\<lambda>key. case map_of settings key of
                    None \<Rightarrow> ''''
                  | Some (BoolSetting b) \<Rightarrow> (if b then ''true'' else ''false'')
                  | Some (StringSetting s) \<Rightarrow> s) \<rparr>"

subsection \<open>Concrete configurations\<close>

text \<open>
  The configuration of the example in the comment above \<open>GelfStreamZapFactory\<close>
  (lines 17 to 29), without its \<open>fields\<close> list, which \<open>New\<close> never reads. It is
  passed to \<open>New\<close> with the path \<open>zap.cores.json\<close>.
\<close>

definition conf_example :: Viper where
  "conf_example = viperOf
     [(''zap.cores.json.type'', StringSetting ''gelf_stream''),
      (''zap.cores.json.level'', StringSetting ''debug''),
      (''zap.cores.json.encoding'', StringSetting ''json''),
      (''zap.caller'', BoolSetting True),
      (''zap.stacktrace'', StringSetting ''error''),
      (''zap.development'', BoolSetting True)]"

text \<open>The configuration that \<open>New\<close> assembles from it.\<close>

definition core_example :: Config where
  "core_example = zap_NewDevelopmentConfig
     \<lparr> Encoding := ''json'',
       EncoderConfig := getGelfEncoderConfig\<lparr>EncodeLevel := LevelEncoderFunc gelfLvlEncoder\<rparr>,
       DisableStacktrace := False,
       DisableCaller := False,
       Level := NewAtomicLevelAt DebugLevel \<rparr>"

text \<open>A configuration that turns stack traces and callers off and names another encoding.\<close>

definition conf_quiet :: Viper where
  "conf_quiet = viperOf
     [(''zap.stacktrace'', StringSetting ''false''),
      (''zap.caller'', BoolSetting False),
      (''zap.cores.json.encoding'', StringSetting ''console'')]"

definition core_quiet :: Config where
  "core_quiet = zap_NewProductionConfig
     \<lparr> Encoding := ''console'',
       EncoderConfig := getGelfEncoderConfig\<lparr>EncodeLevel := LevelEncoderFunc gelfLvlEncoder\<rparr>,
       DisableStacktrace := True,
       DisableCaller := True \<rparr>"

text \<open>The empty configuration: no key is set.\<close>

definition conf_empty :: Viper where
  "conf_empty = viperOf []"

definition core_empty :: Config where
  "core_empty = zap_NewProductionConfig
     \<lparr> Encoding := ''json'',
       EncoderConfig := getGelfEncoderConfig\<lparr>EncodeLevel := LevelEncoderFunc gelfLvlEncoder\<rparr> \<rparr>"

text \<open>A configuration that sets nothing but the application's version.\<close>

definition conf_version :: Viper where
  "conf_version = viperOf [(''app.version'', StringSetting ''1.2.3'')]"

text \<open>A configuration with the version and a level name that is no level.\<close>

definition conf_bad_level :: Viper where
  "conf_bad_level = viperOf
     [(''app.version'', StringSetting ''1.2.3''),
      (''zap.cores.json.level'', StringSetting ''not-a-level'')]"

section \<open>Properties\<close>

lemmas Level_defs =
  DebugLevel_def InfoLevel_def WarnLevel_def ErrorLevel_def
  DPanicLevel_def PanicLevel_def FatalLevel_def

lemmas gelfLevel_defs =
  EmergencyGelfLvl_def AlertGelfLvl_def CriticalGelfLvl_def ErrorGelfLvl_def
  WarningGelfLvl_def NoticeGelfLvl_def InformationalGelfLvl_def DebugGelfLvl_def

subsection \<open>The level encoder\<close>

lemma dom_lvlRelations:
  "dom lvlRelations =
     {DebugLevel, InfoLevel, WarnLevel, ErrorLevel, DPanicLevel, PanicLevel, FatalLevel}"
  by (auto simp: lvlRelations_def)

lemma lvlRelations_index_absent:
  "level \<notin> dom lvlRelations \<Longrightarrow> lvlRelations_index level = 0"
  by (auto simp: lvlRelations_index_def split: option.splits)

text \<open>
  C3. The level encoder appends to the primitive array exactly one value, the integer
  of the fixed table for the level it is given: 7 for debug, 6 for info, 4 for warn, 3
  for error, and 0 for dpanic, panic and fatal. The value is appended as an integer,
  not as a string, and depends on nothing but the level.
\<close>

theorem gelfLvlEncoder_table:
  "gelfLvlEncoder DebugLevel encoder = encoder @ [IntPrim 7] \<and>
   gelfLvlEncoder InfoLevel encoder = encoder @ [IntPrim 6] \<and>
   gelfLvlEncoder WarnLevel encoder = encoder @ [IntPrim 4] \<and>
   gelfLvlEncoder ErrorLevel encoder = encoder @ [IntPrim 3] \<and>
   gelfLvlEncoder DPanicLevel encoder = encoder @ [IntPrim 0] \<and>
   gelfLvlEncoder PanicLevel encoder = encoder @ [IntPrim 0] \<and>
   gelfLvlEncoder FatalLevel encoder = encoder @ [IntPrim 0]"
  by (simp add: gelfLvlEncoder_def AppendInt_def lvlRelations_index_def lvlRelations_def
      Level_defs gelfLevel_defs)

text \<open>
  C7. For a level that is none of debug, info, warn, error, dpanic, panic and fatal,
  that is, for a level the table \<open>lvlRelations\<close> does not hold, the level encoder
  appends the integer 0 (Emergency); it does not fail.
\<close>

theorem gelfLvlEncoder_unmapped:
  assumes "level \<notin> {DebugLevel, InfoLevel, WarnLevel, ErrorLevel,
                     DPanicLevel, PanicLevel, FatalLevel}"
  shows "lvlRelations level = None \<and> gelfLvlEncoder level encoder = encoder @ [IntPrim 0]"
proof -
  from assms have absent: "level \<notin> dom lvlRelations"
    by (simp only: dom_lvlRelations not_False_eq_True)
  then have "lvlRelations level = None"
    by (simp add: domIff)
  moreover from absent have "gelfLvlEncoder level encoder = encoder @ [IntPrim 0]"
    by (simp add: gelfLvlEncoder_def AppendInt_def lvlRelations_index_absent)
  ultimately show ?thesis by simp
qed

theorem gelfLvlEncoder_unmapped_witness:
  "(6 :: Level) \<notin> {DebugLevel, InfoLevel, WarnLevel, ErrorLevel,
                     DPanicLevel, PanicLevel, FatalLevel} \<and>
   lvlRelations 6 = None \<and>
   gelfLvlEncoder 6 [StringPrim ''x''] = [StringPrim ''x'', IntPrim 0]"
proof -
  have out: "(6 :: Level) \<notin> {DebugLevel, InfoLevel, WarnLevel, ErrorLevel,
                     DPanicLevel, PanicLevel, FatalLevel}"
    by (simp add: Level_defs)
  from gelfLvlEncoder_unmapped [OF out, of "[StringPrim ''x'']"] out
  show ?thesis by simp
qed

subsection \<open>The steps of \<open>New\<close>\<close>

lemma Split_not_Nil: "Split s sep \<noteq> []"
  by (induction s) (auto split: list.splits)

lemma Split_rootPath: "Split path (CHR ''.'') = rootPath path # tl (Split path (CHR ''.''))"
  using Split_not_Nil [of path "CHR ''.''"] by (simp add: rootPath_def)

text \<open>
  The first block of \<open>New\<close> in one piece: line 43 never panics, and lines 48 to 75
  update four fields of the selected profile before the level and the version are
  looked at.
\<close>

lemma New_loggerConf_steps:
  "New_loggerConf zap conf path =
     New_level zap conf path
       ((selected_profile zap conf path)
          \<lparr> Encoding :=
              (if IsSet conf (path @ ''.encoding'')
               then GetString conf (path @ ''.encoding'') else ''json''),
            EncoderConfig :=
              getGelfEncoderConfig\<lparr>EncodeLevel := LevelEncoderFunc gelfLvlEncoder\<rparr>,
            DisableStacktrace :=
              (if IsSet conf (rootPath path @ ''.stacktrace'')
               then GetString conf (rootPath path @ ''.stacktrace'') = ''false''
               else DisableStacktrace (selected_profile zap conf path)),
            DisableCaller :=
              (if IsSet conf (rootPath path @ ''.caller'')
               then \<not> GetBool conf (rootPath path @ ''.caller'')
               else DisableCaller (selected_profile zap conf path)) \<rparr>)"
  unfolding New_loggerConf_def
  by (subst Split_rootPath) (simp add: Let_def selected_profile_def)

lemma New_version_Assembled:
  assumes "New_version conf c0 = Assembled c"
  shows "\<exists>fields. c = c0\<lparr>InitialFields := fields\<rparr>"
proof (cases "IsSet conf ''app.version''")
  case False
  with assms have "c = c0\<lparr>InitialFields := InitialFields c0\<rparr>"
    by (simp add: New_version_def)
  then show ?thesis by blast
next
  case True
  with assms show ?thesis
    by (auto simp: New_version_def split: option.splits)
qed

lemma New_version_set:
  assumes "IsSet conf ''app.version''" and "New_version conf c0 = Assembled c"
  shows "\<exists>m. InitialFields c0 = Some m \<and>
           InitialFields c = Some (m(''version'' \<mapsto> AnyString (GetString conf ''app.version'')))"
  using assms by (auto simp: New_version_def split: option.splits)

lemma New_version_not_Failed: "New_version conf c0 \<noteq> Failed err"
  by (simp add: New_version_def split: option.splits)

lemma New_version_Panicked:
  "New_version conf c0 = Panicked p \<longleftrightarrow>
     p = NilMapAssignment \<and> IsSet conf ''app.version'' \<and> InitialFields c0 = None"
  by (auto simp: New_version_def split: option.splits)

lemma New_level_unset:
  "\<not> IsSet conf (path @ ''.level'') \<Longrightarrow> New_level zap conf path c0 = New_version conf c0"
  by (simp add: New_level_def Let_def)

lemma New_level_Inl:
  "IsSet conf (path @ ''.level'') \<Longrightarrow>
   ParseAtomicLevel zap (GetString conf (path @ ''.level'')) = Inl err \<Longrightarrow>
   New_level zap conf path c0 =
     Failed (Wrap err (''cannot parse log level '' @ GetString conf (path @ ''.level'')))"
  by (simp add: New_level_def Let_def)

lemma New_level_Inr:
  "IsSet conf (path @ ''.level'') \<Longrightarrow>
   ParseAtomicLevel zap (GetString conf (path @ ''.level'')) = Inr lvl \<Longrightarrow>
   New_level zap conf path c0 = New_version conf (c0\<lparr>Level := lvl\<rparr>)"
  by (simp add: New_level_def Let_def)

lemma New_level_Assembled:
  assumes "New_level zap conf path c0 = Assembled c"
  shows "\<exists>lvl fields. c = c0\<lparr>Level := lvl, InitialFields := fields\<rparr>"
proof (cases "IsSet conf (path @ ''.level'')")
  case False
  with assms have "New_version conf c0 = Assembled c"
    by (simp add: New_level_unset)
  then obtain fields where "c = c0\<lparr>InitialFields := fields\<rparr>"
    using New_version_Assembled by blast
  then have "c = c0\<lparr>Level := Level c0, InitialFields := fields\<rparr>"
    by simp
  then show ?thesis by blast
next
  case True
  with assms obtain lvl where "New_version conf (c0\<lparr>Level := lvl\<rparr>) = Assembled c"
    by (auto simp: New_level_def Let_def split: sum.splits)
  then show ?thesis
    using New_version_Assembled by blast
qed

lemma New_level_version_set:
  assumes "IsSet conf ''app.version''" and "New_level zap conf path c0 = Assembled c"
  shows "\<exists>m. InitialFields c0 = Some m \<and>
           InitialFields c = Some (m(''version'' \<mapsto> AnyString (GetString conf ''app.version'')))"
proof (cases "IsSet conf (path @ ''.level'')")
  case False
  with assms(2) have "New_version conf c0 = Assembled c"
    by (simp add: New_level_unset)
  with assms(1) show ?thesis by (rule New_version_set)
next
  case True
  with assms(2) obtain lvl where "New_version conf (c0\<lparr>Level := lvl\<rparr>) = Assembled c"
    by (auto simp: New_level_def Let_def split: sum.splits)
  with assms(1) have "\<exists>m. InitialFields (c0\<lparr>Level := lvl\<rparr>) = Some m \<and>
           InitialFields c = Some (m(''version'' \<mapsto> AnyString (GetString conf ''app.version'')))"
    by (rule New_version_set)
  then show ?thesis by simp
qed

text \<open>
  The fields of an assembled configuration that depend on nothing but the
  configuration keys and the selected profile.
\<close>

lemma New_loggerConf_Assembled:
  assumes "New_loggerConf zap conf path = Assembled c"
  shows "Encoding c =
           (if IsSet conf (path @ ''.encoding'')
            then GetString conf (path @ ''.encoding'') else ''json'')"
    and "EncoderConfig c =
           getGelfEncoderConfig\<lparr>EncodeLevel := LevelEncoderFunc gelfLvlEncoder\<rparr>"
    and "DisableStacktrace c =
           (if IsSet conf (rootPath path @ ''.stacktrace'')
            then GetString conf (rootPath path @ ''.stacktrace'') = ''false''
            else DisableStacktrace (selected_profile zap conf path))"
    and "DisableCaller c =
           (if IsSet conf (rootPath path @ ''.caller'')
            then \<not> GetBool conf (rootPath path @ ''.caller'')
            else DisableCaller (selected_profile zap conf path))"
proof -
  from assms obtain lvl fields where
    "c = (selected_profile zap conf path)
          \<lparr> Encoding :=
              (if IsSet conf (path @ ''.encoding'')
               then GetString conf (path @ ''.encoding'') else ''json''),
            EncoderConfig :=
              getGelfEncoderConfig\<lparr>EncodeLevel := LevelEncoderFunc gelfLvlEncoder\<rparr>,
            DisableStacktrace :=
              (if IsSet conf (rootPath path @ ''.stacktrace'')
               then GetString conf (rootPath path @ ''.stacktrace'') = ''false''
               else DisableStacktrace (selected_profile zap conf path)),
            DisableCaller :=
              (if IsSet conf (rootPath path @ ''.caller'')
               then \<not> GetBool conf (rootPath path @ ''.caller'')
               else DisableCaller (selected_profile zap conf path)),
            Level := lvl, InitialFields := fields \<rparr>"
    unfolding New_loggerConf_steps using New_level_Assembled by blast
  then show
    "Encoding c =
           (if IsSet conf (path @ ''.encoding'')
            then GetString conf (path @ ''.encoding'') else ''json'')"
    and "EncoderConfig c =
           getGelfEncoderConfig\<lparr>EncodeLevel := LevelEncoderFunc gelfLvlEncoder\<rparr>"
    and "DisableStacktrace c =
           (if IsSet conf (rootPath path @ ''.stacktrace'')
            then GetString conf (rootPath path @ ''.stacktrace'') = ''false''
            else DisableStacktrace (selected_profile zap conf path))"
    and "DisableCaller c =
           (if IsSet conf (rootPath path @ ''.caller'')
            then \<not> GetBool conf (rootPath path @ ''.caller'')
            else DisableCaller (selected_profile zap conf path))"
    by simp_all
qed

text \<open>A core that \<open>New\<close> returns is the core of the logger built from \<open>loggerConf\<close>.\<close>

lemma New_Return_core:
  assumes "New zap conf path = Return (Some core, err)"
  shows "err = None \<and> (\<exists>c logger. New_loggerConf zap conf path = Assembled c \<and>
           Build zap c = Inr logger \<and> core = Core zap logger)"
  using assms by (auto simp: New_def split: assembled.splits sum.splits)

text \<open>
  A property of every assembled configuration is a property of the configuration
  behind every core that \<open>New\<close> returns.
\<close>

lemma New_core_property:
  assumes "New zap conf path = Return (Some core, err)"
    and "\<And>c. New_loggerConf zap conf path = Assembled c \<Longrightarrow> P c"
  shows "\<exists>c logger. New_loggerConf zap conf path = Assembled c \<and>
           Build zap c = Inr logger \<and> core = Core zap logger \<and> P c"
proof -
  from New_Return_core [OF assms(1)] obtain c logger where
    c: "New_loggerConf zap conf path = Assembled c"
    and built: "Build zap c = Inr logger" "core = Core zap logger"
    by (elim conjE exE)
  from assms(2) [OF c] c built
  have "New_loggerConf zap conf path = Assembled c \<and>
        Build zap c = Inr logger \<and> core = Core zap logger \<and> P c"
    by simp
  then have "\<exists>logger. New_loggerConf zap conf path = Assembled c \<and>
        Build zap c = Inr logger \<and> core = Core zap logger \<and> P c"
    by (rule exI)
  then show ?thesis
    by (rule exI)
qed

subsection \<open>\<open>New\<close> on the concrete configurations\<close>

lemma rootPath_example: "rootPath ''zap.cores.json'' = ''zap''"
  by (simp add: rootPath_def)

lemma New_loggerConf_example:
  "New_loggerConf go_zap conf_example ''zap.cores.json'' = Assembled core_example"
  by (simp add: New_loggerConf_steps rootPath_example selected_profile_def New_level_def
      New_version_def conf_example_def core_example_def viperOf_def go_zap_def
      standin_ParseAtomicLevel_def)

lemma New_example:
  "New go_zap conf_example ''zap.cores.json'' = Return (Some core_example, None)"
  unfolding New_def New_loggerConf_example
  by (simp add: go_zap_def standin_Build_def core_example_def)

lemma New_loggerConf_quiet:
  "New_loggerConf go_zap conf_quiet ''zap.cores.json'' = Assembled core_quiet"
  by (simp add: New_loggerConf_steps rootPath_example selected_profile_def New_level_def
      New_version_def conf_quiet_def core_quiet_def viperOf_def go_zap_def)

lemma New_quiet:
  "New go_zap conf_quiet ''zap.cores.json'' = Return (Some core_quiet, None)"
  unfolding New_def New_loggerConf_quiet
  by (simp add: go_zap_def standin_Build_def core_quiet_def)

lemma New_loggerConf_empty:
  "New_loggerConf go_zap conf_empty ''zap.cores.json'' = Assembled core_empty"
  by (simp add: New_loggerConf_steps rootPath_example selected_profile_def New_level_def
      New_version_def conf_empty_def core_empty_def viperOf_def go_zap_def)

lemma New_empty:
  "New go_zap conf_empty ''zap.cores.json'' = Return (Some core_empty, None)"
  unfolding New_def New_loggerConf_empty
  by (simp add: go_zap_def standin_Build_def core_empty_def zap_NewProductionConfig_def)

lemma New_loggerConf_version:
  "New_loggerConf go_zap conf_version ''zap.cores.json'' = Panicked NilMapAssignment"
  by (simp add: New_loggerConf_steps rootPath_example selected_profile_def New_level_def
      New_version_def conf_version_def viperOf_def go_zap_def zap_NewProductionConfig_def)

lemma New_loggerConf_bad_level:
  "New_loggerConf go_zap conf_bad_level ''zap.cores.json'' =
     Failed (withMessage (errorString (''unrecognized level: '' @ quoted ''not-a-level''))
       ''cannot parse log level not-a-level'')"
  by (simp add: New_loggerConf_steps rootPath_example selected_profile_def New_level_def
      New_version_def conf_bad_level_def viperOf_def go_zap_def standin_ParseAtomicLevel_def
      Wrap_def)

text \<open>With the stand-in builder, the core is the configuration it was built from.\<close>

lemma standin_core:
  assumes "\<exists>c logger. New_loggerConf zap conf path = Assembled c \<and>
             Build zap c = Inr logger \<and> core = Core zap logger \<and> P c"
    and "Build zap = standin_Build" and "Core zap = Logger_Core"
  shows "P core"
proof -
  from assms(1) obtain c logger where
    "Build zap c = Inr logger" "core = Core zap logger" "P c"
    by (elim conjE exE)
  moreover from this(1) assms(2) have "logger = Logger c"
    by (auto simp: standin_Build_def split: if_splits)
  ultimately show ?thesis using assms(3) by simp
qed

lemma go_zap_standin: "Build go_zap = standin_Build" "Core go_zap = Logger_Core"
  by (simp_all add: go_zap_def)

subsection \<open>The version field (lines 86 to 89)\<close>

text \<open>
  C1 fails on the code. Lines 86 to 89 mean to put the value of \<open>app.version\<close> under
  \<open>version\<close> into the initial fields, but the field map they write to is the nil
  map of the default configuration. On the configuration that sets nothing but
  \<open>app.version\<close> to \<open>1.2.3\<close>, the first block of \<open>New\<close> ends in the panic of line
  88, and \<open>New\<close> returns no core, with or without a version field.
\<close>

theorem version_field_never_written:
  "IsSet conf_version ''app.version'' \<and>
   GetString conf_version ''app.version'' = ''1.2.3'' \<and>
   InitialFields (selected_profile go_zap conf_version ''zap.cores.json'') = None \<and>
   New_loggerConf go_zap conf_version ''zap.cores.json'' = Panicked NilMapAssignment \<and>
   \<not> (\<exists>core err. New go_zap conf_version ''zap.cores.json'' = Return (Some core, err))"
proof -
  have "IsSet conf_version ''app.version''"
    and "GetString conf_version ''app.version'' = ''1.2.3''"
    by (simp_all add: conf_version_def viperOf_def)
  moreover have "InitialFields (selected_profile go_zap conf_version ''zap.cores.json'') = None"
    by (simp add: selected_profile_def rootPath_example conf_version_def viperOf_def
        go_zap_def zap_NewProductionConfig_def)
  moreover have "\<not> (\<exists>core err. New go_zap conf_version ''zap.cores.json'' =
      Return (Some core, err))"
    by (simp add: New_def New_loggerConf_version)
  ultimately show ?thesis
    using New_loggerConf_version by simp
qed

text \<open>
  The same holds for every configuration that sets \<open>app.version\<close>, whatever else it
  sets: with default configurations whose field map is nil, as those of the imported
  zap are, \<open>New\<close> never returns a core.
\<close>

theorem version_set_no_core:
  assumes "IsSet conf ''app.version''"
    and "InitialFields (NewProductionConfig zap) = None"
    and "InitialFields (NewDevelopmentConfig zap) = None"
  shows "New zap conf path \<noteq> Return (Some core, err)"
proof
  assume "New zap conf path = Return (Some core, err)"
  from New_Return_core [OF this] obtain c where
    c: "New_loggerConf zap conf path = Assembled c"
    by (elim conjE exE)
  have "\<exists>m. InitialFields (selected_profile zap conf path) = Some m \<and>
           InitialFields c =
             Some (m(''version'' \<mapsto> AnyString (GetString conf ''app.version'')))"
    using New_level_version_set [OF assms(1) c [unfolded New_loggerConf_steps]] by simp
  moreover from assms(2,3) have "InitialFields (selected_profile zap conf path) = None"
    by (simp add: selected_profile_def)
  ultimately show False by simp
qed

theorem version_set_no_core_witness:
  "IsSet conf_bad_level ''app.version'' \<and>
   InitialFields (NewProductionConfig go_zap) = None \<and>
   InitialFields (NewDevelopmentConfig go_zap) = None \<and>
   New go_zap conf_bad_level ''zap.cores.json'' =
     Return (None, Some (withMessage
       (errorString (''unrecognized level: '' @ quoted ''not-a-level''))
       ''cannot parse log level not-a-level''))"
proof -
  have set: "IsSet conf_bad_level ''app.version''"
    by (simp add: conf_bad_level_def viperOf_def)
  have nil: "InitialFields (NewProductionConfig go_zap) = None"
    "InitialFields (NewDevelopmentConfig go_zap) = None"
    by (simp_all add: go_zap_def zap_NewProductionConfig_def zap_NewDevelopmentConfig_def)
  have run: "New go_zap conf_bad_level ''zap.cores.json'' =
     Return (None, Some (withMessage
       (errorString (''unrecognized level: '' @ quoted ''not-a-level''))
       ''cannot parse log level not-a-level''))"
    by (simp add: New_def New_loggerConf_bad_level)
  from version_set_no_core [OF set nil, of "''zap.cores.json''"] set nil run
  show ?thesis by simp
qed

subsection \<open>Panics and failures of \<open>New\<close>\<close>

text \<open>
  C2 fails on the code. With the default configurations of the imported zap, whose
  \<open>InitialFields\<close> is the nil map, a configuration that sets \<open>app.version\<close> and no
  level makes line 88 assign to an entry of a nil map: \<open>New\<close> panics, and returns
  neither a core nor an error.
\<close>

theorem New_panics_at_version:
  "New go_zap conf_version ''zap.cores.json'' = Panic NilMapAssignment"
  by (simp add: New_def New_loggerConf_version)

text \<open>
  \<open>New\<close> panics in exactly one situation: \<open>app.version\<close> is set, the selected profile
  has the nil field map, and the level is absent or parses.
\<close>

lemma New_loggerConf_Panicked:
  "New_loggerConf zap conf path = Panicked p \<longleftrightarrow>
     p = NilMapAssignment \<and> IsSet conf ''app.version'' \<and>
     InitialFields (selected_profile zap conf path) = None \<and>
     (\<not> IsSet conf (path @ ''.level'') \<or>
      (\<exists>lvl. ParseAtomicLevel zap (GetString conf (path @ ''.level'')) = Inr lvl))"
proof (cases "IsSet conf (path @ ''.level'')")
  case False
  then show ?thesis
    by (simp add: New_loggerConf_steps New_level_unset New_version_Panicked)
next
  case True
  show ?thesis
  proof (cases "ParseAtomicLevel zap (GetString conf (path @ ''.level''))")
    case (Inl perr)
    with True show ?thesis
      by (simp add: New_loggerConf_steps New_level_Inl)
  next
    case (Inr lvl)
    with True show ?thesis
      by (simp add: New_loggerConf_steps New_level_Inr New_version_Panicked)
  qed
qed

lemma New_Panic_eq:
  "New zap conf path = Panic p \<longleftrightarrow> New_loggerConf zap conf path = Panicked p"
  by (auto simp: New_def split: assembled.splits sum.splits)

theorem New_Panic_iff:
  "New zap conf path = Panic p \<longleftrightarrow>
     p = NilMapAssignment \<and> IsSet conf ''app.version'' \<and>
     InitialFields (selected_profile zap conf path) = None \<and>
     (\<not> IsSet conf (path @ ''.level'') \<or>
      (\<exists>lvl. ParseAtomicLevel zap (GetString conf (path @ ''.level'')) = Inr lvl))"
  by (simp only: New_Panic_eq New_loggerConf_Panicked)

theorem New_Panic_iff_witness:
  "New go_zap conf_version ''zap.cores.json'' = Panic NilMapAssignment \<and>
   IsSet conf_version ''app.version'' \<and>
   InitialFields (selected_profile go_zap conf_version ''zap.cores.json'') = None \<and>
   \<not> IsSet conf_version (''zap.cores.json'' @ ''.level'')"
proof -
  have "IsSet conf_version ''app.version''"
    and "InitialFields (selected_profile go_zap conf_version ''zap.cores.json'') = None"
    and "\<not> IsSet conf_version (''zap.cores.json'' @ ''.level'')"
    by (simp_all add: conf_version_def viperOf_def selected_profile_def rootPath_example
        go_zap_def zap_NewProductionConfig_def)
  then show ?thesis
    using New_Panic_iff [of go_zap conf_version "''zap.cores.json''" NilMapAssignment]
    by simp
qed

text \<open>
  Apart from that panic, \<open>New\<close> is what the specification says. It ends in one of
  three ways, and a return carries a core or an error, never both and never neither.
\<close>

lemma New_outcomes:
  "New zap conf path = Panic NilMapAssignment \<or>
   (\<exists>err. New zap conf path = Return (None, Some err)) \<or>
   (\<exists>core. New zap conf path = Return (Some core, None))"
proof (cases "New_loggerConf zap conf path")
  case (Panicked p)
  then have "p = NilMapAssignment"
    by (simp add: New_loggerConf_Panicked)
  with Panicked show ?thesis by (simp add: New_def)
next
  case (Failed err)
  then show ?thesis by (simp add: New_def)
next
  case (Assembled c)
  then show ?thesis by (cases "Build zap c") (simp_all add: New_def)
qed

text \<open>
  An error is returned in two situations only: the level is present and does not
  parse, or the build of the logger fails. The error wraps the cause.
\<close>

lemma New_loggerConf_Failed:
  "New_loggerConf zap conf path = Failed err \<longleftrightarrow>
     IsSet conf (path @ ''.level'') \<and>
     (\<exists>perr. ParseAtomicLevel zap (GetString conf (path @ ''.level'')) = Inl perr \<and>
        err = Wrap perr (''cannot parse log level '' @ GetString conf (path @ ''.level'')))"
proof (cases "IsSet conf (path @ ''.level'')")
  case False
  then show ?thesis
    by (simp add: New_loggerConf_steps New_level_unset New_version_not_Failed)
next
  case True
  show ?thesis
  proof (cases "ParseAtomicLevel zap (GetString conf (path @ ''.level''))")
    case (Inl perr)
    with True show ?thesis
      by (auto simp: New_loggerConf_steps New_level_Inl)
  next
    case (Inr lvl)
    with True show ?thesis
      by (simp add: New_loggerConf_steps New_level_Inr New_version_not_Failed)
  qed
qed

theorem New_error_conditions:
  assumes "New zap conf path = Return (r, Some err)"
  shows "r = None \<and>
         ((IsSet conf (path @ ''.level'') \<and>
           (\<exists>perr. ParseAtomicLevel zap (GetString conf (path @ ''.level'')) = Inl perr \<and>
              err = Wrap perr (''cannot parse log level '' @ GetString conf (path @ ''.level'')))) \<or>
          (\<exists>c berr. New_loggerConf zap conf path = Assembled c \<and>
              Build zap c = Inl berr \<and> err = Wrap berr ''failed to build logger''))"
proof (cases "New_loggerConf zap conf path")
  case (Panicked p)
  with assms show ?thesis by (simp add: New_def)
next
  case (Failed e)
  with assms have "e = err" "r = None" by (simp_all add: New_def)
  with Failed show ?thesis by (simp add: New_loggerConf_Failed)
next
  case (Assembled c)
  with assms show ?thesis
    by (cases "Build zap c") (simp_all add: New_def)
qed

theorem New_error_conditions_witness:
  "New go_zap conf_bad_level ''zap.cores.json'' =
     Return (None, Some (withMessage
       (errorString (''unrecognized level: '' @ quoted ''not-a-level''))
       ''cannot parse log level not-a-level'')) \<and>
   IsSet conf_bad_level (''zap.cores.json'' @ ''.level'') \<and>
   (\<exists>perr. ParseAtomicLevel go_zap (GetString conf_bad_level (''zap.cores.json'' @ ''.level'')) =
             Inl perr)"
proof -
  have run: "New go_zap conf_bad_level ''zap.cores.json'' =
     Return (None, Some (withMessage
       (errorString (''unrecognized level: '' @ quoted ''not-a-level''))
       ''cannot parse log level not-a-level''))"
    by (simp add: New_def New_loggerConf_bad_level)
  have "\<not> (\<exists>c berr. New_loggerConf go_zap conf_bad_level ''zap.cores.json'' = Assembled c \<and>
              Build go_zap c = Inl berr \<and>
              withMessage (errorString (''unrecognized level: '' @ quoted ''not-a-level''))
                ''cannot parse log level not-a-level'' = Wrap berr ''failed to build logger'')"
    by (simp add: New_loggerConf_bad_level)
  with New_error_conditions [OF run] run show ?thesis
    by auto
qed

text \<open>Where \<open>app.version\<close> is not set, \<open>New\<close> does not panic.\<close>

theorem New_without_version:
  assumes "\<not> IsSet conf ''app.version''"
  shows "(\<exists>err. New zap conf path = Return (None, Some err)) \<or>
         (\<exists>core. New zap conf path = Return (Some core, None))"
  using New_outcomes [of zap conf path] assms by (simp add: New_Panic_eq New_loggerConf_Panicked)

theorem New_without_version_witness:
  "\<not> IsSet conf_example ''app.version'' \<and>
   New go_zap conf_example ''zap.cores.json'' = Return (Some core_example, None)"
proof -
  have unset: "\<not> IsSet conf_example ''app.version''"
    by (simp add: conf_example_def viperOf_def)
  from New_without_version [OF unset, of go_zap "''zap.cores.json''"] unset New_example
  show ?thesis by simp
qed

subsection \<open>The settings of the assembled configuration\<close>

text \<open>
  C6. Whenever \<open>New\<close> returns a core, the core is built from a configuration whose
  encoder names the record fields as the GELF table does: the time under
  \<open>timestamp\<close>, the level under \<open>level\<close>, the logger's name under \<open>_logger\<close>, the
  caller under \<open>_caller\<close>, the message under \<open>short_message\<close>, the stack trace under
  \<open>full_message\<close>; the key of the function name is the empty \<open>OmitKey\<close>, so the
  function name is left out.
\<close>

theorem gelf_field_names:
  assumes "New zap conf path = Return (Some core, err)"
  shows "\<exists>c logger.
           New_loggerConf zap conf path = Assembled c \<and>
           Build zap c = Inr logger \<and> core = Core zap logger \<and>
           (TimeKey (EncoderConfig c) = ''timestamp'' \<and>
            LevelKey (EncoderConfig c) = ''level'' \<and>
            NameKey (EncoderConfig c) = ''_logger'' \<and>
            CallerKey (EncoderConfig c) = ''_caller'' \<and>
            MessageKey (EncoderConfig c) = ''short_message'' \<and>
            StacktraceKey (EncoderConfig c) = ''full_message'' \<and>
            FunctionKey (EncoderConfig c) = OmitKey \<and> OmitKey = '''')"
proof (rule New_core_property [OF assms])
  fix c
  assume "New_loggerConf zap conf path = Assembled c"
  then have "EncoderConfig c =
      getGelfEncoderConfig\<lparr>EncodeLevel := LevelEncoderFunc gelfLvlEncoder\<rparr>"
    by (rule New_loggerConf_Assembled(2))
  then show "TimeKey (EncoderConfig c) = ''timestamp'' \<and>
        LevelKey (EncoderConfig c) = ''level'' \<and>
        NameKey (EncoderConfig c) = ''_logger'' \<and>
        CallerKey (EncoderConfig c) = ''_caller'' \<and>
        MessageKey (EncoderConfig c) = ''short_message'' \<and>
        StacktraceKey (EncoderConfig c) = ''full_message'' \<and>
        FunctionKey (EncoderConfig c) = OmitKey \<and> OmitKey = ''''"
    by (simp add: getGelfEncoderConfig_def OmitKey_def)
qed

theorem gelf_field_names_witness:
  "New go_zap conf_example ''zap.cores.json'' = Return (Some core_example, None) \<and>
   TimeKey (EncoderConfig core_example) = ''timestamp'' \<and>
   LevelKey (EncoderConfig core_example) = ''level'' \<and>
   NameKey (EncoderConfig core_example) = ''_logger'' \<and>
   CallerKey (EncoderConfig core_example) = ''_caller'' \<and>
   MessageKey (EncoderConfig core_example) = ''short_message'' \<and>
   StacktraceKey (EncoderConfig core_example) = ''full_message'' \<and>
   FunctionKey (EncoderConfig core_example) = ''''"
proof -
  have "TimeKey (EncoderConfig core_example) = ''timestamp'' \<and>
        LevelKey (EncoderConfig core_example) = ''level'' \<and>
        NameKey (EncoderConfig core_example) = ''_logger'' \<and>
        CallerKey (EncoderConfig core_example) = ''_caller'' \<and>
        MessageKey (EncoderConfig core_example) = ''short_message'' \<and>
        StacktraceKey (EncoderConfig core_example) = ''full_message'' \<and>
        FunctionKey (EncoderConfig core_example) = OmitKey \<and> OmitKey = ''''"
    by (rule standin_core [where P = "\<lambda>c.
          TimeKey (EncoderConfig c) = ''timestamp'' \<and>
          LevelKey (EncoderConfig c) = ''level'' \<and>
          NameKey (EncoderConfig c) = ''_logger'' \<and>
          CallerKey (EncoderConfig c) = ''_caller'' \<and>
          MessageKey (EncoderConfig c) = ''short_message'' \<and>
          StacktraceKey (EncoderConfig c) = ''full_message'' \<and>
          FunctionKey (EncoderConfig c) = OmitKey \<and> OmitKey = ''''"])
       (use gelf_field_names [OF New_example] go_zap_standin in simp_all)
  with New_example show ?thesis by simp
qed

text \<open>
  C10. Whenever \<open>New\<close> returns a core, the core is built from a configuration whose
  encoder writes the time with the epoch time encoder (seconds since the Unix epoch)
  and durations with the seconds encoder, whatever the configuration keys and the
  selected profile say.
\<close>

theorem time_and_duration_encoders:
  assumes "New zap conf path = Return (Some core, err)"
  shows "\<exists>c logger.
           New_loggerConf zap conf path = Assembled c \<and>
           Build zap c = Inr logger \<and> core = Core zap logger \<and>
           (EncodeTime (EncoderConfig c) = EpochTimeEncoder \<and>
            EncodeDuration (EncoderConfig c) = SecondsDurationEncoder)"
proof (rule New_core_property [OF assms])
  fix c
  assume "New_loggerConf zap conf path = Assembled c"
  then have "EncoderConfig c =
      getGelfEncoderConfig\<lparr>EncodeLevel := LevelEncoderFunc gelfLvlEncoder\<rparr>"
    by (rule New_loggerConf_Assembled(2))
  then show "EncodeTime (EncoderConfig c) = EpochTimeEncoder \<and>
        EncodeDuration (EncoderConfig c) = SecondsDurationEncoder"
    by (simp add: getGelfEncoderConfig_def)
qed

text \<open>
  The witness is the example configuration, which selects the development profile:
  that profile's own encoders are the ISO 8601 time encoder and the string duration
  encoder.
\<close>

theorem time_and_duration_encoders_witness:
  "New go_zap conf_example ''zap.cores.json'' = Return (Some core_example, None) \<and>
   selected_profile go_zap conf_example ''zap.cores.json'' = zap_NewDevelopmentConfig \<and>
   EncodeTime (EncoderConfig zap_NewDevelopmentConfig) = ISO8601TimeEncoder \<and>
   EncodeDuration (EncoderConfig zap_NewDevelopmentConfig) = StringDurationEncoder \<and>
   EncodeTime (EncoderConfig core_example) = EpochTimeEncoder \<and>
   EncodeDuration (EncoderConfig core_example) = SecondsDurationEncoder"
proof -
  have "EncodeTime (EncoderConfig core_example) = EpochTimeEncoder \<and>
        EncodeDuration (EncoderConfig core_example) = SecondsDurationEncoder"
    by (rule standin_core [where P = "\<lambda>c.
          EncodeTime (EncoderConfig c) = EpochTimeEncoder \<and>
          EncodeDuration (EncoderConfig c) = SecondsDurationEncoder"])
       (use time_and_duration_encoders [OF New_example] go_zap_standin in simp_all)
  moreover have "selected_profile go_zap conf_example ''zap.cores.json'' = zap_NewDevelopmentConfig"
    by (simp add: selected_profile_def rootPath_example conf_example_def viperOf_def go_zap_def)
  moreover have "EncodeTime (EncoderConfig zap_NewDevelopmentConfig) = ISO8601TimeEncoder"
    "EncodeDuration (EncoderConfig zap_NewDevelopmentConfig) = StringDurationEncoder"
    by (simp_all add: zap_NewDevelopmentConfig_def zap_NewDevelopmentEncoderConfig_def)
  ultimately show ?thesis using New_example by simp
qed



text \<open>
  C4. Let the key \<open>rootPath.stacktrace\<close> be set. Whenever \<open>New\<close> returns a core,
  the core is built from a configuration in which stack traces are disabled if and
  only if the string value of the key equals \<open>false\<close>, character for character.
  Every other value, \<open>true\<close>, \<open>TRUE\<close>, \<open>yes\<close> or a misspelling, leaves them enabled.
\<close>

theorem stacktrace_rule:
  assumes "IsSet conf (rootPath path @ ''.stacktrace'')"
    and "New zap conf path = Return (Some core, err)"
  shows "\<exists>c logger.
           New_loggerConf zap conf path = Assembled c \<and>
           Build zap c = Inr logger \<and> core = Core zap logger \<and>
           (DisableStacktrace c \<longleftrightarrow>
              GetString conf (rootPath path @ ''.stacktrace'') = ''false'')"
proof (rule New_core_property [OF assms(2)])
  fix c
  assume "New_loggerConf zap conf path = Assembled c"
  from New_loggerConf_Assembled(3) [OF this] assms(1)
  show "DisableStacktrace c \<longleftrightarrow>
          GetString conf (rootPath path @ ''.stacktrace'') = ''false''"
    by simp
qed

text \<open>
  The witness has the value \<open>false\<close>, which disables stack traces, and the value
  \<open>error\<close> of the example configuration, which does not.
\<close>

theorem stacktrace_rule_witness:
  "IsSet conf_quiet (rootPath ''zap.cores.json'' @ ''.stacktrace'') \<and>
   GetString conf_quiet (rootPath ''zap.cores.json'' @ ''.stacktrace'') = ''false'' \<and>
   New go_zap conf_quiet ''zap.cores.json'' = Return (Some core_quiet, None) \<and>
   DisableStacktrace core_quiet \<and>
   IsSet conf_example (rootPath ''zap.cores.json'' @ ''.stacktrace'') \<and>
   GetString conf_example (rootPath ''zap.cores.json'' @ ''.stacktrace'') = ''error'' \<and>
   New go_zap conf_example ''zap.cores.json'' = Return (Some core_example, None) \<and>
   \<not> DisableStacktrace core_example"
proof -
  have quiet: "IsSet conf_quiet (rootPath ''zap.cores.json'' @ ''.stacktrace'')"
    "GetString conf_quiet (rootPath ''zap.cores.json'' @ ''.stacktrace'') = ''false''"
    by (simp_all add: rootPath_example conf_quiet_def viperOf_def)
  have example: "IsSet conf_example (rootPath ''zap.cores.json'' @ ''.stacktrace'')"
    "GetString conf_example (rootPath ''zap.cores.json'' @ ''.stacktrace'') = ''error''"
    by (simp_all add: rootPath_example conf_example_def viperOf_def)
  have off: "DisableStacktrace core_quiet \<longleftrightarrow>
      GetString conf_quiet (rootPath ''zap.cores.json'' @ ''.stacktrace'') = ''false''"
    by (rule standin_core [where P = "\<lambda>c. DisableStacktrace c \<longleftrightarrow>
          GetString conf_quiet (rootPath ''zap.cores.json'' @ ''.stacktrace'') = ''false''"])
       (use stacktrace_rule [OF quiet(1) New_quiet] go_zap_standin in simp_all)
  have on: "DisableStacktrace core_example \<longleftrightarrow>
      GetString conf_example (rootPath ''zap.cores.json'' @ ''.stacktrace'') = ''false''"
    by (rule standin_core [where P = "\<lambda>c. DisableStacktrace c \<longleftrightarrow>
          GetString conf_example (rootPath ''zap.cores.json'' @ ''.stacktrace'') = ''false''"])
       (use stacktrace_rule [OF example(1) New_example] go_zap_standin in simp_all)
  from off on quiet example New_quiet New_example show ?thesis
    by simp
qed

text \<open>
  C9. Whenever \<open>New\<close> returns a core, the core is built from a configuration in
  which, when the key \<open>rootPath.caller\<close> is set, the caller is recorded if and only
  if the boolean value of the key is true, and, when the key is not set, the caller
  setting is that of the selected profile.
\<close>

theorem caller_rule:
  assumes "New zap conf path = Return (Some core, err)"
  shows "\<exists>c logger.
           New_loggerConf zap conf path = Assembled c \<and>
           Build zap c = Inr logger \<and> core = Core zap logger \<and>
           (if IsSet conf (rootPath path @ ''.caller'')
            then (\<not> DisableCaller c) = GetBool conf (rootPath path @ ''.caller'')
            else DisableCaller c = DisableCaller (selected_profile zap conf path))"
proof (rule New_core_property [OF assms])
  fix c
  assume "New_loggerConf zap conf path = Assembled c"
  from New_loggerConf_Assembled(4) [OF this]
  show "if IsSet conf (rootPath path @ ''.caller'')
        then (\<not> DisableCaller c) = GetBool conf (rootPath path @ ''.caller'')
        else DisableCaller c = DisableCaller (selected_profile zap conf path)"
    by simp
qed

text \<open>
  The witness has the key set to false, set to true, and not set.
\<close>

theorem caller_rule_witness:
  "IsSet conf_quiet (rootPath ''zap.cores.json'' @ ''.caller'') \<and>
   \<not> GetBool conf_quiet (rootPath ''zap.cores.json'' @ ''.caller'') \<and>
   New go_zap conf_quiet ''zap.cores.json'' = Return (Some core_quiet, None) \<and>
   DisableCaller core_quiet \<and>
   IsSet conf_example (rootPath ''zap.cores.json'' @ ''.caller'') \<and>
   GetBool conf_example (rootPath ''zap.cores.json'' @ ''.caller'') \<and>
   New go_zap conf_example ''zap.cores.json'' = Return (Some core_example, None) \<and>
   \<not> DisableCaller core_example \<and>
   \<not> IsSet conf_empty (rootPath ''zap.cores.json'' @ ''.caller'') \<and>
   New go_zap conf_empty ''zap.cores.json'' = Return (Some core_empty, None) \<and>
   DisableCaller core_empty =
     DisableCaller (selected_profile go_zap conf_empty ''zap.cores.json'')"
proof -
  have quiet: "IsSet conf_quiet (rootPath ''zap.cores.json'' @ ''.caller'')"
    "\<not> GetBool conf_quiet (rootPath ''zap.cores.json'' @ ''.caller'')"
    by (simp_all add: rootPath_example conf_quiet_def viperOf_def)
  have example: "IsSet conf_example (rootPath ''zap.cores.json'' @ ''.caller'')"
    "GetBool conf_example (rootPath ''zap.cores.json'' @ ''.caller'')"
    by (simp_all add: rootPath_example conf_example_def viperOf_def)
  have empty: "\<not> IsSet conf_empty (rootPath ''zap.cores.json'' @ ''.caller'')"
    by (simp add: conf_empty_def viperOf_def)
  have 1: "if IsSet conf_quiet (rootPath ''zap.cores.json'' @ ''.caller'')
        then (\<not> DisableCaller core_quiet) = GetBool conf_quiet (rootPath ''zap.cores.json'' @ ''.caller'')
        else DisableCaller core_quiet =
          DisableCaller (selected_profile go_zap conf_quiet ''zap.cores.json'')"
    by (rule standin_core [where P = "\<lambda>c.
        if IsSet conf_quiet (rootPath ''zap.cores.json'' @ ''.caller'')
        then (\<not> DisableCaller c) = GetBool conf_quiet (rootPath ''zap.cores.json'' @ ''.caller'')
        else DisableCaller c =
          DisableCaller (selected_profile go_zap conf_quiet ''zap.cores.json'')"])
       (use caller_rule [OF New_quiet] go_zap_standin in simp_all)
  have 2: "if IsSet conf_example (rootPath ''zap.cores.json'' @ ''.caller'')
        then (\<not> DisableCaller core_example) = GetBool conf_example (rootPath ''zap.cores.json'' @ ''.caller'')
        else DisableCaller core_example =
          DisableCaller (selected_profile go_zap conf_example ''zap.cores.json'')"
    by (rule standin_core [where P = "\<lambda>c.
        if IsSet conf_example (rootPath ''zap.cores.json'' @ ''.caller'')
        then (\<not> DisableCaller c) = GetBool conf_example (rootPath ''zap.cores.json'' @ ''.caller'')
        else DisableCaller c =
          DisableCaller (selected_profile go_zap conf_example ''zap.cores.json'')"])
       (use caller_rule [OF New_example] go_zap_standin in simp_all)
  have 3: "if IsSet conf_empty (rootPath ''zap.cores.json'' @ ''.caller'')
        then (\<not> DisableCaller core_empty) = GetBool conf_empty (rootPath ''zap.cores.json'' @ ''.caller'')
        else DisableCaller core_empty =
          DisableCaller (selected_profile go_zap conf_empty ''zap.cores.json'')"
    by (rule standin_core [where P = "\<lambda>c.
        if IsSet conf_empty (rootPath ''zap.cores.json'' @ ''.caller'')
        then (\<not> DisableCaller c) = GetBool conf_empty (rootPath ''zap.cores.json'' @ ''.caller'')
        else DisableCaller c =
          DisableCaller (selected_profile go_zap conf_empty ''zap.cores.json'')"])
       (use caller_rule [OF New_empty] go_zap_standin in simp_all)
  from 1 quiet have "DisableCaller core_quiet" by simp
  moreover from 2 example have "\<not> DisableCaller core_example" by simp
  moreover from 3 empty have "DisableCaller core_empty =
     DisableCaller (selected_profile go_zap conf_empty ''zap.cores.json'')" by simp
  ultimately show ?thesis
    using quiet example empty New_quiet New_example New_empty by simp
qed

subsection \<open>The level threshold (lines 77 to 84)\<close>



end
